theory Spec2Isabelle
  imports
    Complex_Main
    "HOL-Library.Char_ord"
    "HOL-Library.Multiset"
    "HOL-Library.List_Lexorder"
    "HOL-Library.Product_Lexorder"
begin

section \<open>Anomaly scorer (ai/anomaly.py)\<close>

text \<open>
  Conventions of the embedding.
  \<^item> A finite float64 value is the \<^typ>\<open>real\<close> number it denotes. Comparisons,
    \<open>abs\<close>, \<open>max\<close> and negation of such values are exact and are the operations of
    \<^typ>\<open>real\<close>. Every operation that rounds (sum, difference, product, quotient,
    the column aggregates, \<open>round\<close>) is a field of a record \<open>fp\<close> that each function
    takes as its first argument: the properties below hold for every such record, so in
    particular for IEEE 754 arithmetic on runs in which no operation overflows, and
    nothing is assumed of \<open>fp\<close> beyond what a theorem states. Infinities and
    overflow are not represented. The one NaN that
    the scorer produces on finite data (the median of an empty window) is the value
    \<open>None\<close> of an option, and a comparison with it is false, as in Python.
  \<^item> A calendar date is its proleptic ordinal (an \<^typ>\<open>int\<close>); the ISO text of a
    date and its ordinal determine each other, so equality and order of dates are
    equality and order of ordinals.
  \<^item> SQL \<open>NULL\<close> in a text column is \<open>None\<close>.
  \<^item> The clock read by \<open>datetime.now\<close> is an explicit argument.
\<close>

subsection \<open>Tables\<close>

text \<open>A row of \<open>fact_kpi_daily\<close>.\<close>

record observation =
  obs_kpi :: string
  obs_date :: int
  obs_value :: real

text \<open>A row of \<open>scenario_registry\<close> (the columns the scorer selects).\<close>

record scenario =
  sc_tag :: "string option"
  sc_date :: int
  sc_kpi :: "string option"

text \<open>
  A row of \<open>anomalies\<close>, which is also the dictionary \<open>record\<close> that
  \<open>recompute_anomalies\<close> returns (the autoincrement \<open>id\<close> is not written by the code).
\<close>

record anomaly =
  kpi_name :: string
  date :: int
  val :: real
  baseline :: real
  score :: real
  status :: string
  scenario_tag :: "string option"
  created_at :: string

record conn =
  fact_kpi_daily :: "observation list"
  scenario_registry :: "scenario list"
  anomalies :: "anomaly list"

subsection \<open>Arithmetic, numpy and pandas\<close>

text \<open>
  The rounding operations: \<open>+\<close>, \<open>-\<close>, \<open>*\<close>, \<open>/\<close> on floats (the quotient for a divisor
  other than zero), \<open>round(x, ndigits)\<close>, \<open>Series.sum\<close>, \<open>Series.mean\<close>,
  \<open>Series.std(ddof=0)\<close> and the builtin \<open>sum\<close>.
\<close>

record float_ops =
  f_add :: "real \<Rightarrow> real \<Rightarrow> real"
  f_sub :: "real \<Rightarrow> real \<Rightarrow> real"
  f_mul :: "real \<Rightarrow> real \<Rightarrow> real"
  f_div :: "real \<Rightarrow> real \<Rightarrow> real"
  f_round :: "real \<Rightarrow> nat \<Rightarrow> real"
  series_sum :: "real list \<Rightarrow> real"
  series_mean :: "real list \<Rightarrow> real"
  series_std :: "real list \<Rightarrow> real"
  builtin_sum :: "real list \<Rightarrow> real"

text \<open>
  \<open>Series.median\<close> and \<open>np.median\<close>: the middle of the ascending values, the mean of
  the two middle ones when the count is even, NaN (\<open>None\<close>) when there is none.
\<close>

definition median :: "float_ops \<Rightarrow> real list \<Rightarrow> real option" where
  "median fp xs =
     (if xs = [] then None
      else let s = sort xs; n = length xs
           in if odd n then Some (s ! (n div 2))
              else Some (f_div fp (f_add fp (s ! (n div 2 - 1)) (s ! (n div 2))) 2))"

subsection \<open>Reading the inputs\<close>

text \<open>
  \<open>_load_scenario_lookup\<close>: a dictionary keyed by \<open>(kpi_name, scenario_date)\<close>; rows
  with a null or empty \<open>kpi_name\<close> are skipped and a later row overwrites an earlier one.
\<close>

definition scenario_step ::
  "scenario \<Rightarrow> (string \<times> int \<rightharpoonup> string option) \<Rightarrow> (string \<times> int \<rightharpoonup> string option)" where
  "scenario_step row mapping =
     (case sc_kpi row of
        None \<Rightarrow> mapping
      | Some k \<Rightarrow> if k = [] then mapping else mapping((k, sc_date row) \<mapsto> sc_tag row))"

definition load_scenario_lookup :: "conn \<Rightarrow> (string \<times> int \<rightharpoonup> string option)" where
  "load_scenario_lookup c = fold scenario_step (scenario_registry c) Map.empty"

text \<open>\<open>scenario_lookup.get(key)\<close>: the stored tag, \<open>None\<close> for a missing key.\<close>

definition lookup_get :: "(string \<times> int \<rightharpoonup> string option) \<Rightarrow> string \<times> int \<Rightarrow> string option" where
  "lookup_get mapping key = (case mapping key of None \<Rightarrow> None | Some t \<Rightarrow> t)"

text \<open>
  The query of lines 32-40: \<open>WHERE kpi_name IN (...)\<close> only when \<open>kpi_names\<close> is
  neither \<open>None\<close> nor empty, then \<open>ORDER BY kpi_name, date\<close>.
\<close>

definition kpi_selected :: "string list option \<Rightarrow> string \<Rightarrow> bool" where
  "kpi_selected kpi_names k =
     (case kpi_names of
        None \<Rightarrow> True
      | Some ns \<Rightarrow> if ns = [] then True else k \<in> set ns)"

definition read_frame :: "conn \<Rightarrow> string list option \<Rightarrow> observation list" where
  "read_frame c kpi_names =
     sort_key (\<lambda>r. (obs_kpi r, obs_date r))
       (filter (\<lambda>r. kpi_selected kpi_names (obs_kpi r)) (fact_kpi_daily c))"

text \<open>
  \<open>frame.groupby("kpi_name")\<close>: one group per distinct name, in ascending order of the
  name, each with its rows in frame order.
\<close>

definition groupby_kpi :: "observation list \<Rightarrow> (string \<times> observation list) list" where
  "groupby_kpi frame =
     map (\<lambda>k. (k, filter (\<lambda>r. obs_kpi r = k) frame)) (sort (remdups (map obs_kpi frame)))"

subsection \<open>Scoring one index\<close>

text \<open>\<open>values.iloc[max(0, idx - window_days):idx]\<close>.\<close>

definition history :: "observation list \<Rightarrow> int \<Rightarrow> nat \<Rightarrow> observation list" where
  "history values window_days idx =
     drop (nat (max 0 (int idx - window_days))) (take idx values)"

text \<open>
  Lines 63-71: the baseline and the score of index \<open>idx\<close>; \<open>None\<close> when they are NaN.
\<close>

definition window_score ::
  "float_ops \<Rightarrow> observation list \<Rightarrow> int \<Rightarrow> nat \<Rightarrow> (real \<times> real) option" where
  "window_score fp values window_days idx =
     (let h = map obs_value (history values window_days idx);
          current = obs_value (values ! idx)
      in case median fp h of
           None \<Rightarrow> None
         | Some b \<Rightarrow>
             (case median fp (map (\<lambda>v. \<bar>f_sub fp v b\<bar>) h) of
                None \<Rightarrow> None
              | Some mad \<Rightarrow>
                  if mad = 0
                  then (let std = series_std fp h;
                            denom = (if 0 < std then std else 1 / 10 ^ 9)
                        in Some (b, f_div fp \<bar>f_sub fp current b\<bar> denom))
                  else Some (b, f_div fp \<bar>f_sub fp current b\<bar> (f_mul fp 1.4826 mad))))"

text \<open>Lines 77-86: the record of a flagged day.\<close>

definition make_record ::
  "float_ops \<Rightarrow> (string \<times> int \<rightharpoonup> string option) \<Rightarrow> string \<Rightarrow> string \<Rightarrow>
   observation \<Rightarrow> real \<Rightarrow> real \<Rightarrow> anomaly" where
  "make_record fp lookup now k current b s =
     \<lparr> kpi_name = k,
       date = obs_date current,
       val = f_round fp (obs_value current) 4,
       baseline = f_round fp b 4,
       score = f_round fp s 4,
       status = ''open'',
       scenario_tag = lookup_get lookup (k, obs_date current),
       created_at = now \<rparr>"

text \<open>
  The body of the loop over \<open>idx\<close> (lines 55-99): the records it appends, none or one.
\<close>

definition check_index ::
  "float_ops \<Rightarrow> (string \<times> int \<rightharpoonup> string option) \<Rightarrow> string \<Rightarrow> real \<Rightarrow> int \<Rightarrow> int \<Rightarrow>
   string \<Rightarrow> observation list \<Rightarrow> nat \<Rightarrow> anomaly list" where
  "check_index fp lookup now threshold window_days min_history k values idx =
     (if int idx < min_history then []
      else if int (length (history values window_days idx)) < min_history then []
      else case window_score fp values window_days idx of
             None \<Rightarrow> []
           | Some (b, s) \<Rightarrow>
               if threshold < s then [make_record fp lookup now k (values ! idx) b s] else [])"

text \<open>The loop over the indices of one group, sorted by date (lines 52-54).\<close>

definition scan_group ::
  "float_ops \<Rightarrow> (string \<times> int \<rightharpoonup> string option) \<Rightarrow> string \<Rightarrow> real \<Rightarrow> int \<Rightarrow> int \<Rightarrow>
   string \<times> observation list \<Rightarrow> anomaly list" where
  "scan_group fp lookup now threshold window_days min_history g =
     (let values = sort_key obs_date (snd g)
      in concat (map (check_index fp lookup now threshold window_days min_history (fst g) values)
                     [0 ..< length values]))"

text \<open>
  \<open>recompute_anomalies\<close>: the returned list and the connection after the call. An empty
  frame returns at line 42, before the \<open>DELETE\<close>; otherwise the table is emptied and
  the flagged rows are inserted.
\<close>

definition recompute_anomalies ::
  "float_ops \<Rightarrow> conn \<Rightarrow> real \<Rightarrow> int \<Rightarrow> int \<Rightarrow> string list option \<Rightarrow> string \<Rightarrow> anomaly list \<times> conn" where
  "recompute_anomalies fp c threshold window_days min_history kpi_names now =
     (let frame = read_frame c kpi_names
      in if frame = [] then ([], c)
         else let lookup = load_scenario_lookup c;
                  out = concat (map (scan_group fp lookup now threshold window_days min_history)
                                    (groupby_kpi frame))
              in (out, c\<lparr>anomalies := out\<rparr>))"

section \<open>Driver attribution (ai/drivers.py)\<close>

text \<open>
  The relational store is seen through the queries the module runs: the result of the
  anomaly-day query and of the baseline-window query of a dimension configuration, and
  the two queries of the data-quality path. \<open>target_date\<close> is the ordinal of the date
  its text denotes; a number outside the range of \<open>datetime.date\<close> stands for a text
  that is no calendar date. A raised exception is a value \<open>Inl e\<close>.
\<close>

datatype error = ValueError | OverflowError | ZeroDivisionError

definition bind_result :: "error + 'a \<Rightarrow> ('a \<Rightarrow> error + 'b) \<Rightarrow> error + 'b" where
  "bind_result r f = (case r of Inl e \<Rightarrow> Inl e | Inr x \<Rightarrow> f x)"

primrec map_result :: "('a \<Rightarrow> error + 'b) \<Rightarrow> 'a list \<Rightarrow> error + 'b list" where
  "map_result f [] = Inr []"
| "map_result f (x # xs) =
     bind_result (f x) (\<lambda>y. bind_result (map_result f xs) (\<lambda>ys. Inr (y # ys)))"

text \<open>Float division: \<open>a / b\<close> raises \<open>ZeroDivisionError\<close> when \<open>b\<close> is zero.\<close>

definition py_truediv :: "float_ops \<Rightarrow> real \<Rightarrow> real \<Rightarrow> error + real" where
  "py_truediv fp a b = (if b = 0 then Inl ZeroDivisionError else Inr (f_div fp a b))"

text \<open>\<open>date.fromisoformat\<close>, \<open>date.min\<close> is ordinal 1 and \<open>date.max\<close> is 3652059.\<close>

definition fromisoformat :: "int \<Rightarrow> error + int" where
  "fromisoformat d = (if 1 \<le> d \<and> d \<le> 3652059 then Inr d else Inl ValueError)"

text \<open>\<open>d - timedelta(days=n)\<close>: both the timedelta and the resulting date are range checked.\<close>

definition date_minus_days :: "int \<Rightarrow> int \<Rightarrow> error + int" where
  "date_minus_days d n =
     (if 999999999 < \<bar>n\<bar> then Inl OverflowError
      else if d - n < 1 \<or> 3652059 < d - n then Inl OverflowError
      else Inr (d - n))"

text \<open>\<open>DataFrame.head(n)\<close>: the first \<open>n\<close> rows, all but the last \<open>-n\<close> when \<open>n\<close> is negative.\<close>

definition head :: "int \<Rightarrow> 'a list \<Rightarrow> 'a list" where
  "head n xs = (if 0 \<le> n then take (nat n) xs else take (length xs - nat (- n)) xs)"

subsection \<open>Frames and rows\<close>

record DimensionQueryConfig =
  cfg_dimension :: string
  segment_expr :: string
  from_clause :: string
  numerator_expr :: string
  denominator_expr :: string
  extra_where :: string

text \<open>
  A row of a rate query: \<open>segment, numerator, denominator\<close> (the \<open>baseline_date\<close> column
  of the baseline query is never read).
\<close>

record agg_row =
  segment_raw :: "string option"
  numerator :: real
  denominator :: real

text \<open>A row of the merged frame, after \<open>fillna(0.0)\<close>.\<close>

record merged_row =
  m_segment :: string
  numerator_anomaly :: real
  denominator_anomaly :: real
  numerator_baseline :: real
  denominator_baseline :: real

text \<open>
  A driver row. \<open>supporting_stats\<close> is the dictionary of named metrics in insertion
  order; \<open>driver_score\<close> is \<open>None\<close> where the key is absent (dropped from the evidence
  rows, never set on the data-quality path); a \<open>delta_pct\<close> of \<open>None\<close> is the source's
  \<open>None\<close> (NaN once the row has been through a data frame).
\<close>

record driver_row =
  dimension :: string
  segment :: string
  delta_abs :: real
  delta_pct :: "real option"
  contribution_share :: real
  supporting_stats :: "(string \<times> real) list"
  driver_score :: "real option"

text \<open>An evidence entry; the two SQL texts, fixed by the configuration, are left out.\<close>

record evidence_entry =
  ev_dimension :: string
  anomaly_params :: "int list"
  baseline_params :: "int list"
  top_rows :: "driver_row list"

record attribution =
  drivers :: "driver_row list"
  evidence :: "evidence_entry list"

text \<open>A row of the data-quality queries and of their merged frame.\<close>

record dq_row =
  dq_segment :: string
  missing_delivered :: real
  delivered_jobs :: real
  duplicate_rate :: real

record dq_merged_row =
  dqm_segment :: string
  missing_delivered_anomaly :: real
  delivered_jobs_anomaly :: real
  duplicate_rate_anomaly :: real
  missing_delivered_baseline :: real
  delivered_jobs_baseline :: real
  duplicate_rate_baseline :: real

text \<open>What \<open>_run_df\<close> returns for each query the module builds.\<close>

record mart =
  run_anomaly_sql :: "DimensionQueryConfig \<Rightarrow> int \<Rightarrow> agg_row list"
  run_baseline_sql :: "DimensionQueryConfig \<Rightarrow> int \<Rightarrow> int \<Rightarrow> agg_row list"
  run_dq_anomaly_sql :: "int \<Rightarrow> dq_row list"
  run_dq_baseline_sql :: "int \<Rightarrow> int \<Rightarrow> dq_row list"

subsection \<open>\<open>_safe_rate\<close> and \<open>_build_driver_rows\<close>\<close>

definition safe_rate :: "float_ops \<Rightarrow> real \<Rightarrow> real \<Rightarrow> error + real" where
  "safe_rate fp num den = (if den = 0 then Inr 0 else py_truediv fp num den)"

text \<open>\<open>df["segment"].fillna("Unknown").astype(str)\<close>.\<close>

definition fill_segment :: "agg_row \<Rightarrow> string" where
  "fill_segment r = (case segment_raw r of None \<Rightarrow> ''Unknown'' | Some s \<Rightarrow> s)"

text \<open>\<open>baseline_df.groupby("segment", as_index=False)[[...]].mean()\<close>: one row per segment,
  in ascending order of the segment.\<close>

definition baseline_grouped ::
  "float_ops \<Rightarrow> agg_row list \<Rightarrow> (string \<times> real \<times> real) list" where
  "baseline_grouped fp baseline_df =
     map (\<lambda>k. let g = filter (\<lambda>r. fill_segment r = k) baseline_df
              in (k, series_mean fp (map numerator g), series_mean fp (map denominator g)))
         (sort (remdups (map fill_segment baseline_df)))"

text \<open>
  \<open>anomaly_df.merge(baseline_grouped, on="segment", how="outer").fillna(0.0)\<close>: the keys
  of either side in ascending order; a key on one side only has zeros on the other.
\<close>

definition merge_outer :: "agg_row list \<Rightarrow> (string \<times> real \<times> real) list \<Rightarrow> merged_row list" where
  "merge_outer anomaly_df grouped =
     concat (map (\<lambda>k.
        let ls = filter (\<lambda>r. fill_segment r = k) anomaly_df;
            rs = filter (\<lambda>g. fst g = k) grouped
        in if ls = []
           then map (\<lambda>g. \<lparr> m_segment = k, numerator_anomaly = 0, denominator_anomaly = 0,
                           numerator_baseline = fst (snd g),
                           denominator_baseline = snd (snd g) \<rparr>) rs
           else if rs = []
           then map (\<lambda>l. \<lparr> m_segment = k, numerator_anomaly = numerator l,
                           denominator_anomaly = denominator l,
                           numerator_baseline = 0, denominator_baseline = 0 \<rparr>) ls
           else concat (map (\<lambda>l. map (\<lambda>g.
                          \<lparr> m_segment = k, numerator_anomaly = numerator l,
                            denominator_anomaly = denominator l,
                            numerator_baseline = fst (snd g),
                            denominator_baseline = snd (snd g) \<rparr>) rs) ls))
        (sort (remdups (map fill_segment anomaly_df @ map fst grouped))))"

definition merged_frame :: "float_ops \<Rightarrow> agg_row list \<Rightarrow> agg_row list \<Rightarrow> merged_row list" where
  "merged_frame fp anomaly_df baseline_df =
     merge_outer anomaly_df (baseline_grouped fp baseline_df)"

definition total_num_delta :: "float_ops \<Rightarrow> merged_row list \<Rightarrow> real" where
  "total_num_delta fp merged =
     f_sub fp (series_sum fp (map numerator_anomaly merged))
              (series_sum fp (map numerator_baseline merged))"

text \<open>The body of the loop over the merged rows (lines 68-98).\<close>

definition driver_row_of ::
  "float_ops \<Rightarrow> string \<Rightarrow> real \<Rightarrow> merged_row \<Rightarrow> error + driver_row" where
  "driver_row_of fp dimn total_delta row =
     (let a_num = numerator_anomaly row; a_den = denominator_anomaly row;
          b_num = numerator_baseline row; b_den = denominator_baseline row
      in bind_result (safe_rate fp a_num a_den) (\<lambda>anomaly_rate.
         bind_result (safe_rate fp b_num b_den) (\<lambda>baseline_rate.
         let d_abs = f_sub fp anomaly_rate baseline_rate
         in bind_result
              (if 0 < baseline_rate
               then bind_result (py_truediv fp d_abs baseline_rate)
                      (\<lambda>q. Inr (Some (f_mul fp q 100)))
               else Inr None) (\<lambda>d_pct.
            let numerator_delta = f_sub fp a_num b_num
            in bind_result
                 (if total_delta \<noteq> 0 then py_truediv fp numerator_delta total_delta
                  else Inr 0) (\<lambda>share.
               Inr \<lparr> dimension = dimn,
                     segment = m_segment row,
                     delta_abs = f_round fp d_abs 6,
                     delta_pct = map_option (\<lambda>p. f_round fp p 4) d_pct,
                     contribution_share = f_round fp share 6,
                     supporting_stats =
                       [(''anomaly_numerator'', f_round fp a_num 4),
                        (''anomaly_denominator'', f_round fp a_den 4),
                        (''baseline_numerator'', f_round fp b_num 4),
                        (''baseline_denominator'', f_round fp b_den 4),
                        (''anomaly_rate'', f_round fp anomaly_rate 6),
                        (''baseline_rate'', f_round fp baseline_rate 6)],
                     driver_score =
                       Some (f_mul fp \<bar>numerator_delta\<bar> (max 0.01 \<bar>d_abs\<bar>)) \<rparr>)))))"

text \<open>The sort key of a present \<open>driver_score\<close>.\<close>

definition score_of :: "driver_row \<Rightarrow> real" where
  "score_of r = (case driver_score r of None \<Rightarrow> 0 | Some d \<Rightarrow> d)"

definition drop_driver_score :: "driver_row \<Rightarrow> driver_row" where
  "drop_driver_score r = r\<lparr>driver_score := None\<rparr>"

text \<open>
  \<open>_build_driver_rows\<close>: the rows of a dimension and its evidence rows. A descending
  \<open>sort_values\<close> on several columns is a stable sort on the negated columns.
\<close>

definition build_driver_rows ::
  "float_ops \<Rightarrow> string \<Rightarrow> agg_row list \<Rightarrow> agg_row list \<Rightarrow> int \<Rightarrow>
   error + (driver_row list \<times> driver_row list)" where
  "build_driver_rows fp dimn anomaly_df baseline_df top_n =
     (if anomaly_df = [] \<and> baseline_df = [] then Inr ([], [])
      else let merged = merged_frame fp anomaly_df baseline_df
           in bind_result
                (map_result (driver_row_of fp dimn (total_num_delta fp merged)) merged) (\<lambda>rows.
                Inr (rows,
                     map drop_driver_score
                       (head top_n
                          (sort_key (\<lambda>r. (- score_of r, - contribution_share r)) rows)))))"

subsection \<open>\<open>_dimension_configs_for_kpi\<close>\<close>

definition sla_from_clause :: string where
  "sla_from_clause =
     ''fact_comms fc JOIN dim_date dd ON dd.date_key = fc.date_key JOIN dim_site ds ON ds.site_id = fc.site_id JOIN dim_customer dc ON dc.customer_id = fc.customer_id JOIN dim_category dcat ON dcat.category_id = fc.category_id LEFT JOIN fact_incidents fi ON fi.job_id = fc.job_id LEFT JOIN dim_carrier dcar ON dcar.carrier_id = fc.carrier_id LEFT JOIN dim_product dp ON dp.product_id = fc.product_id''"

definition exception_from_clause :: string where
  "exception_from_clause =
     ''fact_jobs fj JOIN dim_date dd ON dd.date_key = fj.date_key JOIN dim_site ds ON ds.site_id = fj.site_id JOIN dim_customer dc ON dc.customer_id = fj.customer_id LEFT JOIN fact_incidents fi ON fi.job_id = fj.job_id LEFT JOIN fact_comms fc ON fc.job_id = fj.job_id AND fc.date_key = fj.date_key LEFT JOIN dim_category dcat ON dcat.category_id = fc.category_id JOIN dim_carrier dcar ON dcar.carrier_id = fj.carrier_id JOIN dim_product dp ON dp.product_id = fj.product_id''"

text \<open>The constructor call \<open>DimensionQueryConfig(...)\<close> with the default \<open>extra_where\<close>.\<close>

definition mk_config :: "string \<Rightarrow> string \<Rightarrow> string \<Rightarrow> string \<Rightarrow> string \<Rightarrow> DimensionQueryConfig" where
  "mk_config d seg frm num den =
     \<lparr> cfg_dimension = d, segment_expr = seg, from_clause = frm, numerator_expr = num,
       denominator_expr = den, extra_where = ''1=1'' \<rparr>"

definition dimension_configs_for_kpi :: "string \<Rightarrow> DimensionQueryConfig list" where
  "dimension_configs_for_kpi kpi =
     (if kpi = ''sla_breach_rate_pct'' then
        (let frm = sla_from_clause;
             num = ''SUM(CASE WHEN fc.sla_sensitive_bool = 1 AND fc.breached_bool = 1 THEN 1 ELSE 0 END)'';
             den = ''SUM(CASE WHEN fc.sla_sensitive_bool = 1 THEN 1 ELSE 0 END)''
         in [mk_config ''site'' ''ds.site_name'' frm num den,
             mk_config ''customer_tier'' ''dc.tier'' frm num den,
             mk_config ''category'' ''dcat.category_name'' frm num den,
             mk_config ''incident_type'' ''COALESCE(fi.incident_type, 'No incident')'' frm num den,
             mk_config ''carrier'' ''COALESCE(dcar.carrier_name, 'Unknown carrier')'' frm num den,
             mk_config ''product_family'' ''COALESCE(dp.product_family, 'Unknown product')'' frm num den])
      else if kpi = ''exception_rate_per_100_jobs'' then
        (let frm = exception_from_clause;
             num = ''COUNT(DISTINCT fi.incident_id)'';
             den = ''COUNT(DISTINCT fj.job_id)''
         in [mk_config ''site'' ''ds.site_name'' frm num den,
             mk_config ''customer_tier'' ''dc.tier'' frm num den,
             mk_config ''category'' ''COALESCE(dcat.category_name, 'No comm category')'' frm num den,
             mk_config ''incident_type'' ''COALESCE(fi.incident_type, 'No incident')'' frm num den,
             mk_config ''carrier'' ''dcar.carrier_name'' frm num den,
             mk_config ''product_family'' ''dp.product_family'' frm num den])
      else [])"

subsection \<open>\<open>_analyze_rate_kpi\<close>\<close>

text \<open>
  The loop over the configurations (lines 174-210): the pooled rows and one evidence
  entry per configuration. \<open>_build_driver_rows\<close> is called without \<open>top_n\<close>, so with
  its default 5.
\<close>

fun dimension_loop ::
  "float_ops \<Rightarrow> mart \<Rightarrow> int \<Rightarrow> int \<Rightarrow> int \<Rightarrow> DimensionQueryConfig list \<Rightarrow>
   error + (driver_row list \<times> evidence_entry list)" where
  "dimension_loop fp db target_date baseline_start baseline_end [] = Inr ([], [])"
| "dimension_loop fp db target_date baseline_start baseline_end (cfg # cfgs) =
     bind_result
       (build_driver_rows fp (cfg_dimension cfg)
          (run_anomaly_sql db cfg target_date)
          (run_baseline_sql db cfg baseline_start baseline_end) 5) (\<lambda>(rows, top).
     bind_result (dimension_loop fp db target_date baseline_start baseline_end cfgs)
       (\<lambda>(all_rows, ev).
          Inr (rows @ all_rows,
               \<lparr> ev_dimension = cfg_dimension cfg,
                 anomaly_params = [target_date],
                 baseline_params = [baseline_start, baseline_end],
                 top_rows = top \<rparr> # ev)))"

text \<open>Lines 215-223: the choice of the pool and its ranking.\<close>

definition positive_rows :: "driver_row list \<Rightarrow> driver_row list" where
  "positive_rows all_rows = filter (\<lambda>r. 0 < delta_abs r \<and> 0 < contribution_share r) all_rows"

definition rank_score :: "float_ops \<Rightarrow> driver_row \<Rightarrow> real" where
  "rank_score fp r = f_mul fp \<bar>contribution_share r\<bar> \<bar>delta_abs r\<bar>"

definition rank_drivers :: "float_ops \<Rightarrow> driver_row list \<Rightarrow> int \<Rightarrow> driver_row list" where
  "rank_drivers fp all_rows top_n =
     (let positive = positive_rows all_rows;
          ranked = (if positive \<noteq> [] then positive else all_rows)
      in head top_n
           (sort_key (\<lambda>r. (- rank_score fp r, - contribution_share r, - delta_abs r)) ranked))"

definition analyze_rate_kpi ::
  "float_ops \<Rightarrow> mart \<Rightarrow> string \<Rightarrow> int \<Rightarrow> int \<Rightarrow> int \<Rightarrow> error + attribution" where
  "analyze_rate_kpi fp db kpi target_date baseline_days top_n =
     bind_result (fromisoformat target_date) (\<lambda>target.
     bind_result (date_minus_days target baseline_days) (\<lambda>baseline_start.
     bind_result (date_minus_days target 1) (\<lambda>baseline_end.
     bind_result (dimension_loop fp db target_date baseline_start baseline_end
                    (dimension_configs_for_kpi kpi)) (\<lambda>(all_rows, ev).
       if all_rows = [] then Inr \<lparr> drivers = [], evidence = ev \<rparr>
       else Inr \<lparr> drivers = rank_drivers fp all_rows top_n, evidence = ev \<rparr>))))"

subsection \<open>\<open>_analyze_data_quality\<close>\<close>

definition dq_baseline_grouped :: "float_ops \<Rightarrow> dq_row list \<Rightarrow> dq_row list" where
  "dq_baseline_grouped fp baseline_df =
     map (\<lambda>k. let g = filter (\<lambda>r. dq_segment r = k) baseline_df
              in \<lparr> dq_segment = k,
                   missing_delivered = series_mean fp (map missing_delivered g),
                   delivered_jobs = series_mean fp (map delivered_jobs g),
                   duplicate_rate = series_mean fp (map duplicate_rate g) \<rparr>)
         (sort (remdups (map dq_segment baseline_df)))"

definition dq_join :: "string \<Rightarrow> dq_row option \<Rightarrow> dq_row option \<Rightarrow> dq_merged_row" where
  "dq_join k l g =
     \<lparr> dqm_segment = k,
       missing_delivered_anomaly = (case l of None \<Rightarrow> 0 | Some r \<Rightarrow> missing_delivered r),
       delivered_jobs_anomaly = (case l of None \<Rightarrow> 0 | Some r \<Rightarrow> delivered_jobs r),
       duplicate_rate_anomaly = (case l of None \<Rightarrow> 0 | Some r \<Rightarrow> duplicate_rate r),
       missing_delivered_baseline = (case g of None \<Rightarrow> 0 | Some r \<Rightarrow> missing_delivered r),
       delivered_jobs_baseline = (case g of None \<Rightarrow> 0 | Some r \<Rightarrow> delivered_jobs r),
       duplicate_rate_baseline = (case g of None \<Rightarrow> 0 | Some r \<Rightarrow> duplicate_rate r) \<rparr>"

definition dq_merge_outer :: "dq_row list \<Rightarrow> dq_row list \<Rightarrow> dq_merged_row list" where
  "dq_merge_outer anomaly_df grouped =
     concat (map (\<lambda>k.
        let ls = filter (\<lambda>r. dq_segment r = k) anomaly_df;
            rs = filter (\<lambda>r. dq_segment r = k) grouped
        in if ls = [] then map (\<lambda>g. dq_join k None (Some g)) rs
           else if rs = [] then map (\<lambda>l. dq_join k (Some l) None) ls
           else concat (map (\<lambda>l. map (\<lambda>g. dq_join k (Some l) (Some g)) rs) ls))
        (sort (remdups (map dq_segment anomaly_df @ map dq_segment grouped))))"

text \<open>The body of the first loop (lines 272-305); \<open>contribution_share\<close> is set later.\<close>

definition dq_row_of :: "float_ops \<Rightarrow> dq_merged_row \<Rightarrow> error + driver_row" where
  "dq_row_of fp row =
     (let a_missing = missing_delivered_anomaly row; a_delivered = delivered_jobs_anomaly row;
          b_missing = missing_delivered_baseline row; b_delivered = delivered_jobs_baseline row;
          a_dup = duplicate_rate_anomaly row; b_dup = duplicate_rate_baseline row
      in bind_result (safe_rate fp a_missing a_delivered) (\<lambda>a_missing_rate.
         bind_result (safe_rate fp b_missing b_delivered) (\<lambda>b_missing_rate.
         let anomaly_penalty = f_add fp (f_mul fp a_missing_rate 70) (f_mul fp a_dup 30);
             baseline_penalty = f_add fp (f_mul fp b_missing_rate 70) (f_mul fp b_dup 30);
             d_abs = f_sub fp anomaly_penalty baseline_penalty
         in bind_result
              (if 0 < baseline_penalty
               then bind_result (py_truediv fp d_abs baseline_penalty)
                      (\<lambda>q. Inr (Some (f_mul fp q 100)))
               else Inr None) (\<lambda>d_pct.
            Inr \<lparr> dimension = ''site'',
                  segment = dqm_segment row,
                  delta_abs = f_round fp d_abs 6,
                  delta_pct = map_option (\<lambda>p. f_round fp p 4) d_pct,
                  contribution_share = 0,
                  supporting_stats =
                    [(''anomaly_missing_delivered'', f_round fp a_missing 2),
                     (''anomaly_delivered_jobs'', f_round fp a_delivered 2),
                     (''baseline_missing_delivered'', f_round fp b_missing 2),
                     (''baseline_delivered_jobs'', f_round fp b_delivered 2),
                     (''anomaly_duplicate_rate'', f_round fp a_dup 6),
                     (''baseline_duplicate_rate'', f_round fp b_dup 6),
                     (''anomaly_penalty'', f_round fp anomaly_penalty 6),
                     (''baseline_penalty'', f_round fp baseline_penalty 6)],
                  driver_score = None \<rparr>))))"

text \<open>Lines 307-310: \<open>sum(...) or 1.0\<close>, then the share of every row.\<close>

definition dq_set_shares :: "float_ops \<Rightarrow> driver_row list \<Rightarrow> error + driver_row list" where
  "dq_set_shares fp rows =
     (if rows = [] then Inr []
      else let s = builtin_sum fp (map (\<lambda>r. max 0 (delta_abs r)) rows);
               dq_total = (if s = 0 then 1 else s)
           in map_result (\<lambda>item.
                bind_result (py_truediv fp (max 0 (delta_abs item)) dq_total) (\<lambda>q.
                  Inr (item\<lparr>contribution_share := f_round fp q 6\<rparr>))) rows)"

definition analyze_data_quality ::
  "float_ops \<Rightarrow> mart \<Rightarrow> int \<Rightarrow> int \<Rightarrow> int \<Rightarrow> error + attribution" where
  "analyze_data_quality fp db target_date baseline_days top_n =
     bind_result (fromisoformat target_date) (\<lambda>target.
     bind_result (date_minus_days target baseline_days) (\<lambda>baseline_start.
     bind_result (date_minus_days target 1) (\<lambda>baseline_end.
     let anomaly_df = run_dq_anomaly_sql db target_date;
         baseline_df = run_dq_baseline_sql db baseline_start baseline_end;
         merged = dq_merge_outer anomaly_df (dq_baseline_grouped fp baseline_df)
     in bind_result (map_result (dq_row_of fp) merged) (\<lambda>rows0.
        bind_result (dq_set_shares fp rows0) (\<lambda>rows.
        let ranked = (if rows \<noteq> []
                      then sort_key (\<lambda>r. (- contribution_share r, - delta_abs r)) rows
                      else rows);
            ds = (if ranked \<noteq> [] then head top_n ranked else [])
        in Inr \<lparr> drivers = ds,
                 evidence = [\<lparr> ev_dimension = ''site'',
                               anomaly_params = [target_date],
                               baseline_params = [baseline_start, baseline_end],
                               top_rows = ds \<rparr>] \<rparr>)))))"

subsection \<open>\<open>compute_top_drivers\<close>\<close>

definition compute_top_drivers ::
  "float_ops \<Rightarrow> mart \<Rightarrow> string \<Rightarrow> int \<Rightarrow> int \<Rightarrow> int \<Rightarrow> error + attribution" where
  "compute_top_drivers fp db kpi target_date baseline_days top_n =
     (if kpi \<in> {''sla_breach_rate_pct'', ''exception_rate_per_100_jobs''}
      then analyze_rate_kpi fp db kpi target_date baseline_days top_n
      else if kpi = ''data_quality_score''
      then analyze_data_quality fp db target_date baseline_days top_n
      else Inr \<lparr> drivers = [], evidence = [] \<rparr>)"

section \<open>Notions used to state the properties\<close>

text \<open>
  The ranking order of the drivers in words: a larger product of
  \<open>|contribution_share|\<close> and \<open>|delta_abs|\<close> first (the product as the program computes
  it), then a larger \<open>contribution_share\<close>, then a larger \<open>delta_abs\<close>.
\<close>

definition ranks_before :: "float_ops \<Rightarrow> driver_row \<Rightarrow> driver_row \<Rightarrow> bool" where
  "ranks_before fp a b \<longleftrightarrow>
     f_mul fp \<bar>contribution_share b\<bar> \<bar>delta_abs b\<bar>
       < f_mul fp \<bar>contribution_share a\<bar> \<bar>delta_abs a\<bar>
     \<or> (f_mul fp \<bar>contribution_share b\<bar> \<bar>delta_abs b\<bar>
          = f_mul fp \<bar>contribution_share a\<bar> \<bar>delta_abs a\<bar>
        \<and> (contribution_share b < contribution_share a
           \<or> (contribution_share b = contribution_share a \<and> delta_abs b \<le> delta_abs a)))"

text \<open>The KPI names that \<open>compute_top_drivers\<close> dispatches on.\<close>

definition rate_kpis :: "string set" where
  "rate_kpis = {''sla_breach_rate_pct'', ''exception_rate_per_100_jobs''}"


section \<open>Concrete inputs\<close>

text \<open>
  Concrete runs are evaluated with exact arithmetic and decimal rounding to the nearest,
  a tie going to the even neighbour. The inputs below are chosen so that float64
  arithmetic takes the same branches and stores the same rounded values: the attribution
  frames have dyadic rates, and the scores lie well away from the thresholds and from
  rounding ties.
\<close>

definition round_half_even :: "real \<Rightarrow> nat \<Rightarrow> real" where
  "round_half_even x nd =
     (let y = x * 10 ^ nd; f = \<lfloor>y\<rfloor>; d = y - of_int f
      in of_int (if d < 1 / 2 then f
                 else if 1 / 2 < d then f + 1
                 else if even f then f else f + 1) / 10 ^ nd)"

definition exact_ops :: float_ops where
  "exact_ops =
     \<lparr> f_add = (\<lambda>a b. a + b), f_sub = (\<lambda>a b. a - b), f_mul = (\<lambda>a b. a * b),
       f_div = (\<lambda>a b. a / b), f_round = round_half_even,
       series_sum = sum_list,
       series_mean = (\<lambda>xs. sum_list xs / real (length xs)),
       series_std =
         (\<lambda>xs. sqrt (sum_list (map (\<lambda>x. (x - sum_list xs / real (length xs))\<^sup>2) xs)
                      / real (length xs))),
       builtin_sum = sum_list \<rparr>"

text \<open>
  Two KPIs with three daily observations each (stored out of order), one registered
  scenario, and one anomaly row left in the table by an earlier run.
\<close>

definition stale_anomaly :: anomaly where
  "stale_anomaly =
     \<lparr> kpi_name = ''kpi_b'', date = 3, val = 9, baseline = 1, score = 5, status = ''open'',
       scenario_tag = None, created_at = ''2026-02-09T08:00:00+00:00'' \<rparr>"

definition demo_conn :: conn where
  "demo_conn =
     \<lparr> fact_kpi_daily =
         [\<lparr> obs_kpi = ''kpi_a'', obs_date = 3, obs_value = 4 \<rparr>,
          \<lparr> obs_kpi = ''kpi_b'', obs_date = 1, obs_value = 0 \<rparr>,
          \<lparr> obs_kpi = ''kpi_a'', obs_date = 1, obs_value = 0 \<rparr>,
          \<lparr> obs_kpi = ''kpi_b'', obs_date = 2, obs_value = 2 \<rparr>,
          \<lparr> obs_kpi = ''kpi_a'', obs_date = 2, obs_value = 2 \<rparr>,
          \<lparr> obs_kpi = ''kpi_b'', obs_date = 3, obs_value = 1 \<rparr>],
       scenario_registry =
         [\<lparr> sc_tag = Some ''Scenario A'', sc_date = 3, sc_kpi = Some ''kpi_a'' \<rparr>],
       anomalies = [stale_anomaly] \<rparr>"

text \<open>
  The record of day 3 of \<open>kpi_a\<close>, flagged at threshold 1 with a window of two days: the
  baseline is 1, MAD is 1 and the score is \<open>3 / 1.4826\<close>, about 2.02347.
\<close>

definition demo_record :: "string \<Rightarrow> anomaly" where
  "demo_record now =
     \<lparr> kpi_name = ''kpi_a'', date = 3, val = 4, baseline = 1, score = 2.0235,
       status = ''open'', scenario_tag = Some ''Scenario A'', created_at = now \<rparr>"

text \<open>The \<open>kpi_a\<close> group in date order, as the loop sees it.\<close>

definition demo_series :: "observation list" where
  "demo_series =
     [\<lparr> obs_kpi = ''kpi_a'', obs_date = 1, obs_value = 0 \<rparr>,
      \<lparr> obs_kpi = ''kpi_a'', obs_date = 2, obs_value = 2 \<rparr>,
      \<lparr> obs_kpi = ''kpi_a'', obs_date = 3, obs_value = 4 \<rparr>]"

text \<open>
  A run as the endpoint \<open>/anomalies/run\<close> makes it with \<open>window_days = 8\<close> and the default
  threshold 3.0 (so \<open>min_history = max(8, 8) = 8\<close>): eight days with median 1 and MAD 1,
  and a ninth day whose score is 3.00001.
\<close>

definition near_conn :: conn where
  "near_conn =
     \<lparr> fact_kpi_daily =
         [\<lparr> obs_kpi = ''kpi_a'', obs_date = 1, obs_value = 0 \<rparr>,
          \<lparr> obs_kpi = ''kpi_a'', obs_date = 2, obs_value = 2 \<rparr>,
          \<lparr> obs_kpi = ''kpi_a'', obs_date = 3, obs_value = 0 \<rparr>,
          \<lparr> obs_kpi = ''kpi_a'', obs_date = 4, obs_value = 2 \<rparr>,
          \<lparr> obs_kpi = ''kpi_a'', obs_date = 5, obs_value = 0 \<rparr>,
          \<lparr> obs_kpi = ''kpi_a'', obs_date = 6, obs_value = 2 \<rparr>,
          \<lparr> obs_kpi = ''kpi_a'', obs_date = 7, obs_value = 0 \<rparr>,
          \<lparr> obs_kpi = ''kpi_a'', obs_date = 8, obs_value = 2 \<rparr>,
          \<lparr> obs_kpi = ''kpi_a'', obs_date = 9, obs_value = 5.447814826 \<rparr>],
       scenario_registry = [], anomalies = [] \<rparr>"

definition near_record :: "string \<Rightarrow> anomaly" where
  "near_record now =
     \<lparr> kpi_name = ''kpi_a'', date = 9, val = 5.4478, baseline = 1, score = 3,
       status = ''open'', scenario_tag = None, created_at = now \<rparr>"

text \<open>A store in which every attribution query returns no row.\<close>

definition empty_mart :: mart where
  "empty_mart =
     \<lparr> run_anomaly_sql = (\<lambda>cfg d. []), run_baseline_sql = (\<lambda>cfg a b. []),
       run_dq_anomaly_sql = (\<lambda>d. []), run_dq_baseline_sql = (\<lambda>a b. []) \<rparr>"

text \<open>
  A store with carrier data only, for the target date 2026-02-10 (ordinal 739657) and
  the fourteen days before it (739643 to 739656): three carriers on the anomaly day, one
  of them without a name, and four daily baseline rows.
\<close>

definition demo_anomaly_df :: "agg_row list" where
  "demo_anomaly_df =
     [\<lparr> segment_raw = Some ''NorthHaul'', numerator = 5, denominator = 8 \<rparr>,
      \<lparr> segment_raw = None, numerator = 1, denominator = 8 \<rparr>,
      \<lparr> segment_raw = Some ''SouthCo'', numerator = 3, denominator = 8 \<rparr>]"

definition demo_baseline_df :: "agg_row list" where
  "demo_baseline_df =
     [\<lparr> segment_raw = Some ''NorthHaul'', numerator = 1, denominator = 8 \<rparr>,
      \<lparr> segment_raw = Some ''SouthCo'', numerator = 2, denominator = 8 \<rparr>,
      \<lparr> segment_raw = None, numerator = 1, denominator = 8 \<rparr>,
      \<lparr> segment_raw = Some ''NorthHaul'', numerator = 3, denominator = 8 \<rparr>]"

definition demo_mart :: mart where
  "demo_mart =
     \<lparr> run_anomaly_sql =
         (\<lambda>cfg d. if cfg_dimension cfg = ''carrier'' \<and> d = 739657 then demo_anomaly_df else []),
       run_baseline_sql =
         (\<lambda>cfg a b. if cfg_dimension cfg = ''carrier'' \<and> a = 739643 \<and> b = 739656
                    then demo_baseline_df else []),
       run_dq_anomaly_sql = (\<lambda>d. []), run_dq_baseline_sql = (\<lambda>a b. []) \<rparr>"

text \<open>The three carrier rows that \<open>_build_driver_rows\<close> makes of these frames.\<close>

definition north_row :: driver_row where
  "north_row =
     \<lparr> dimension = ''carrier'', segment = ''NorthHaul'', delta_abs = 0.375,
       delta_pct = Some 150, contribution_share = 0.75,
       supporting_stats =
         [(''anomaly_numerator'', 5), (''anomaly_denominator'', 8),
          (''baseline_numerator'', 2), (''baseline_denominator'', 8),
          (''anomaly_rate'', 0.625), (''baseline_rate'', 0.25)],
       driver_score = Some 1.125 \<rparr>"

definition south_row :: driver_row where
  "south_row =
     \<lparr> dimension = ''carrier'', segment = ''SouthCo'', delta_abs = 0.125,
       delta_pct = Some 50, contribution_share = 0.25,
       supporting_stats =
         [(''anomaly_numerator'', 3), (''anomaly_denominator'', 8),
          (''baseline_numerator'', 2), (''baseline_denominator'', 8),
          (''anomaly_rate'', 0.375), (''baseline_rate'', 0.25)],
       driver_score = Some 0.125 \<rparr>"

definition unknown_row :: driver_row where
  "unknown_row =
     \<lparr> dimension = ''carrier'', segment = ''Unknown'', delta_abs = 0,
       delta_pct = Some 0, contribution_share = 0,
       supporting_stats =
         [(''anomaly_numerator'', 1), (''anomaly_denominator'', 8),
          (''baseline_numerator'', 1), (''baseline_denominator'', 8),
          (''anomaly_rate'', 0.125), (''baseline_rate'', 0.125)],
       driver_score = Some 0 \<rparr>"

definition demo_entry :: "string \<Rightarrow> driver_row list \<Rightarrow> evidence_entry" where
  "demo_entry d rows =
     \<lparr> ev_dimension = d, anomaly_params = [739657], baseline_params = [739643, 739656],
       top_rows = rows \<rparr>"

definition demo_evidence :: "driver_row list \<Rightarrow> evidence_entry list" where
  "demo_evidence carrier_rows =
     [demo_entry ''site'' [], demo_entry ''customer_tier'' [], demo_entry ''category'' [],
      demo_entry ''incident_type'' [], demo_entry ''carrier'' carrier_rows,
      demo_entry ''product_family'' []]"





section \<open>Properties of the anomaly scorer\<close>

subsection \<open>Auxiliary facts\<close>

lemma set_concat_map_mono:
  "(\<And>x. x \<in> set xs \<Longrightarrow> set (f x) \<subseteq> set (g x)) \<Longrightarrow>
   set (concat (map f xs)) \<subseteq> set (concat (map g xs))"
  by auto

lemma length_concat_map_mono:
  "(\<And>x. x \<in> set xs \<Longrightarrow> length (f x) \<le> length (g x)) \<Longrightarrow>
   length (concat (map f xs)) \<le> length (concat (map g xs))"
  by (induction xs) (auto intro: add_mono)

lemma concat_map_pointwise:
  "(\<And>x. f x = map h (g x)) \<Longrightarrow> concat (map f xs) = map h (concat (map g xs))"
  by (induction xs) simp_all

lemma recompute_nonempty:
  "read_frame c f \<noteq> [] \<Longrightarrow>
   recompute_anomalies fp c t w m f now =
     (concat (map (scan_group fp (load_scenario_lookup c) now t w m) (groupby_kpi (read_frame c f))),
      c\<lparr>anomalies :=
          concat (map (scan_group fp (load_scenario_lookup c) now t w m)
                      (groupby_kpi (read_frame c f)))\<rparr>)"
  by (simp add: recompute_anomalies_def Let_def)

lemma check_index_member:
  assumes "r \<in> set (check_index fp l now t w m k vs i)"
  shows "m \<le> int i \<and> m \<le> int (length (history vs w i)) \<and>
         (\<exists>b s. window_score fp vs w i = Some (b, s) \<and> t < s \<and> r = make_record fp l now k (vs ! i) b s)"
proof (cases "window_score fp vs w i")
  case None
  with assms show ?thesis by (simp add: check_index_def split: if_splits)
next
  case (Some p)
  obtain b s where p: "p = (b, s)" by (cases p)
  with Some assms show ?thesis by (simp add: check_index_def split: if_splits)
qed

lemma scan_group_kpi: "r \<in> set (scan_group fp l now t w m g) \<Longrightarrow> kpi_name r = fst g"
  by (auto simp: scan_group_def Let_def make_record_def dest!: check_index_member)

lemma groupby_kpi_keys: "g \<in> set (groupby_kpi frame) \<Longrightarrow> fst g \<in> obs_kpi ` set frame"
  by (auto simp: groupby_kpi_def)

lemma read_frame_selected: "x \<in> set (read_frame c f) \<Longrightarrow> kpi_selected f (obs_kpi x)"
  by (auto simp: read_frame_def)

text \<open>Evaluation of the concrete run.\<close>

lemmas eval_defs =
  recompute_anomalies_def read_frame_def demo_conn_def kpi_selected_def groupby_kpi_def
  scan_group_def check_index_def history_def window_score_def median_def upt_rec
  make_record_def round_half_even_def exact_ops_def lookup_get_def load_scenario_lookup_def scenario_step_def
  demo_record_def stale_anomaly_def Let_def

lemma demo_run:
  "recompute_anomalies exact_ops demo_conn 1 2 2 None now =
     ([demo_record now], demo_conn\<lparr>anomalies := [demo_record now]\<rparr>)"
  by (simp add: eval_defs)

lemma demo_run_filtered:
  "recompute_anomalies exact_ops demo_conn 1 2 2 (Some [''kpi_a'']) now =
     ([demo_record now], demo_conn\<lparr>anomalies := [demo_record now]\<rparr>)"
  by (simp add: eval_defs)

lemma demo_run_high: "fst (recompute_anomalies exact_ops demo_conn 3 2 2 None now) = []"
  by (simp add: eval_defs)

lemma demo_frame_filtered: "read_frame demo_conn (Some [''kpi_a'']) = demo_series"
  by (simp add: read_frame_def demo_conn_def kpi_selected_def demo_series_def)

lemma demo_frame_empty: "read_frame demo_conn (Some [''kpi_z'']) = []"
  by (simp add: read_frame_def demo_conn_def kpi_selected_def)

subsection \<open>Replacement of the store\<close>

text \<open>
  Claim C1, as the code has it. A call whose query returns at least one observation,
  with or without a KPI filter, deletes every row of the anomaly table and leaves in it
  exactly the records flagged by this call; all of them belong to selected KPIs, so with
  a filter the stored anomalies of the other KPIs are deleted and not recomputed. The
  other tables are not written.
\<close>

theorem recompute_replaces_whole_store:
  assumes "read_frame c f \<noteq> []"
  shows "anomalies (snd (recompute_anomalies fp c t w m f now)) = fst (recompute_anomalies fp c t w m f now)
       \<and> (\<forall>r \<in> set (anomalies (snd (recompute_anomalies fp c t w m f now))). kpi_selected f (kpi_name r))
       \<and> fact_kpi_daily (snd (recompute_anomalies fp c t w m f now)) = fact_kpi_daily c
       \<and> scenario_registry (snd (recompute_anomalies fp c t w m f now)) = scenario_registry c"
proof -
  have sel: "kpi_selected f (kpi_name r)"
    if "r \<in> set (concat (map (scan_group fp l now t w m) (groupby_kpi (read_frame c f))))" for r l
  proof -
    from that obtain g where g: "g \<in> set (groupby_kpi (read_frame c f))"
      and r: "r \<in> set (scan_group fp l now t w m g)" by auto
    from r have "kpi_name r = fst g" by (rule scan_group_kpi)
    moreover from g obtain x where "x \<in> set (read_frame c f)" "fst g = obs_kpi x"
      using groupby_kpi_keys by blast
    ultimately show ?thesis using read_frame_selected by metis
  qed
  show ?thesis
    unfolding recompute_nonempty [OF assms] using sel by simp
qed

theorem recompute_replaces_whole_store_witness:
  "read_frame demo_conn (Some [''kpi_a'']) \<noteq> []
   \<and> anomalies (snd (recompute_anomalies exact_ops demo_conn 1 2 2 (Some [''kpi_a'']) ''t'')) =
       fst (recompute_anomalies exact_ops demo_conn 1 2 2 (Some [''kpi_a'']) ''t'')
   \<and> fact_kpi_daily (snd (recompute_anomalies exact_ops demo_conn 1 2 2 (Some [''kpi_a'']) ''t'')) =
       fact_kpi_daily demo_conn
   \<and> scenario_registry (snd (recompute_anomalies exact_ops demo_conn 1 2 2 (Some [''kpi_a'']) ''t'')) =
       scenario_registry demo_conn"
proof -
  have h: "read_frame demo_conn (Some [''kpi_a'']) \<noteq> []"
    by (simp add: demo_frame_filtered demo_series_def)
  show ?thesis
    using h recompute_replaces_whole_store [OF h, of exact_ops 1 2 2 "''t''"] by simp
qed

text \<open>
  The claim as written fails: the stored anomaly of \<open>kpi_b\<close>, a KPI outside the filter,
  is gone after a run filtered on \<open>kpi_a\<close>.
\<close>

theorem filtered_recompute_drops_other_kpis:
  "stale_anomaly \<in> set (anomalies demo_conn)
   \<and> kpi_name stale_anomaly \<notin> set [''kpi_a'']
   \<and> stale_anomaly \<notin> set (anomalies (snd (recompute_anomalies exact_ops demo_conn 1 2 2 (Some [''kpi_a'']) ''t'')))"
  by (simp add: demo_run_filtered) (simp add: demo_conn_def stale_anomaly_def demo_record_def)

subsection \<open>Empty input\<close>

text \<open>
  Claim C4, as the code has it. When no observation matches the query, the call returns
  the empty list and leaves the connection as it was: no row is inserted and the anomaly
  table is not emptied either.
\<close>

theorem recompute_empty_frame:
  assumes "read_frame c f = []"
  shows "recompute_anomalies fp c t w m f now = ([], c)"
  using assms by (simp add: recompute_anomalies_def)

theorem recompute_empty_frame_witness:
  "read_frame demo_conn (Some [''kpi_z'']) = []
   \<and> recompute_anomalies exact_ops demo_conn 3 14 14 (Some [''kpi_z'']) ''t'' = ([], demo_conn)"
  using recompute_empty_frame [OF demo_frame_empty, of exact_ops 3 14 14 "''t''"] demo_frame_empty
  by simp

text \<open>
  The claim as written fails: with no matching observation the delete is not performed,
  the table still holds the row of the earlier run.
\<close>

theorem empty_frame_keeps_store:
  "read_frame demo_conn (Some [''kpi_z'']) = []
   \<and> anomalies (snd (recompute_anomalies exact_ops demo_conn 3 14 14 (Some [''kpi_z'']) ''t'')) = [stale_anomaly]"
  by (simp add: demo_frame_empty recompute_anomalies_def) (simp add: demo_conn_def)

subsection \<open>Determinism\<close>

lemma check_index_clock:
  "check_index fp l now2 t w m k vs i =
     map (\<lambda>r. r\<lparr>created_at := now2\<rparr>) (check_index fp l now1 t w m k vs i)"
  by (simp add: check_index_def make_record_def split: option.splits)

lemma scan_group_clock:
  "scan_group fp l now2 t w m g = map (\<lambda>r. r\<lparr>created_at := now2\<rparr>) (scan_group fp l now1 t w m g)"
  unfolding scan_group_def Let_def
  by (rule concat_map_pointwise) (rule check_index_clock)

text \<open>
  Claim C3, as the code has it. For a fixed store and fixed parameters, two runs return
  the same records in the same order up to \<open>created_at\<close>, which is the clock reading of
  the run; the connection after the run differs in that field only.
\<close>

theorem recompute_differs_only_in_created_at:
  "fst (recompute_anomalies fp c t w m f now2) =
     map (\<lambda>r. r\<lparr>created_at := now2\<rparr>) (fst (recompute_anomalies fp c t w m f now1))
   \<and> snd (recompute_anomalies fp c t w m f now2) =
       (if read_frame c f = [] then c
        else c\<lparr>anomalies :=
                 map (\<lambda>r. r\<lparr>created_at := now2\<rparr>) (fst (recompute_anomalies fp c t w m f now1))\<rparr>)"
proof -
  have "concat (map (scan_group fp l now2 t w m) gs) =
        map (\<lambda>r. r\<lparr>created_at := now2\<rparr>) (concat (map (scan_group fp l now1 t w m) gs))" for l gs
    by (rule concat_map_pointwise) (rule scan_group_clock)
  then show ?thesis by (simp add: recompute_anomalies_def Let_def)
qed

theorem recompute_differs_only_in_created_at_witness:
  "fst (recompute_anomalies exact_ops demo_conn 1 2 2 None ''2026-02-10T09:00:01+00:00'') =
     [demo_record ''2026-02-10T09:00:01+00:00'']"
proof -
  have a: "fst (recompute_anomalies exact_ops demo_conn 1 2 2 None ''2026-02-10T09:00:00+00:00'') =
           [demo_record ''2026-02-10T09:00:00+00:00'']"
    by (simp add: demo_run)
  have "fst (recompute_anomalies exact_ops demo_conn 1 2 2 None ''2026-02-10T09:00:01+00:00'') =
        map (\<lambda>r. r\<lparr>created_at := ''2026-02-10T09:00:01+00:00''\<rparr>)
          (fst (recompute_anomalies exact_ops demo_conn 1 2 2 None ''2026-02-10T09:00:00+00:00''))"
    using recompute_differs_only_in_created_at
            [of exact_ops demo_conn 1 2 2 None "''2026-02-10T09:00:01+00:00''"
                "''2026-02-10T09:00:00+00:00''"]
    by (rule conjunct1)
  then show ?thesis unfolding a by (simp add: demo_record_def)
qed

text \<open>
  The claim as written fails: \<open>created_at\<close> is persisted, and two runs on the same store
  with the same parameters, one second apart, return different records.
\<close>

theorem recompute_depends_on_clock:
  "fst (recompute_anomalies exact_ops demo_conn 1 2 2 None ''2026-02-10T09:00:00+00:00'') \<noteq>
   fst (recompute_anomalies exact_ops demo_conn 1 2 2 None ''2026-02-10T09:00:01+00:00'')"
  by (simp add: demo_run) (simp add: demo_record_def)

subsection \<open>Threshold monotonicity\<close>

lemma check_index_threshold:
  "t1 \<le> t2 \<Longrightarrow>
   check_index fp l now t2 w m k vs i = [] \<or>
   check_index fp l now t2 w m k vs i = check_index fp l now t1 w m k vs i"
  by (auto simp: check_index_def split: option.splits)

lemma scan_group_threshold:
  assumes "t1 \<le> t2"
  shows "set (scan_group fp l now t2 w m g) \<subseteq> set (scan_group fp l now t1 w m g)"
    and "length (scan_group fp l now t2 w m g) \<le> length (scan_group fp l now t1 w m g)"
proof -
  have a: "set (check_index fp l now t2 w m k vs i) \<subseteq> set (check_index fp l now t1 w m k vs i)" for k vs i
    using check_index_threshold [OF assms, of fp l now w m k vs i] by auto
  have b: "length (check_index fp l now t2 w m k vs i) \<le> length (check_index fp l now t1 w m k vs i)" for k vs i
    using check_index_threshold [OF assms, of fp l now w m k vs i] by auto
  show "set (scan_group fp l now t2 w m g) \<subseteq> set (scan_group fp l now t1 w m g)"
    unfolding scan_group_def Let_def by (rule set_concat_map_mono) (rule a)
  show "length (scan_group fp l now t2 w m g) \<le> length (scan_group fp l now t1 w m g)"
    unfolding scan_group_def Let_def by (rule length_concat_map_mono) (rule b)
qed

text \<open>
  Claim C9. For a fixed store, window, minimum history, filter and clock, and thresholds
  \<open>t1 \<le> t2\<close>: every record flagged at \<open>t2\<close> is flagged at \<open>t1\<close>, so the flagged days at
  \<open>t2\<close> are among those at \<open>t1\<close> and their number does not grow.
\<close>

theorem threshold_monotone:
  assumes "t1 \<le> t2"
  shows "set (fst (recompute_anomalies fp c t2 w m f now)) \<subseteq> set (fst (recompute_anomalies fp c t1 w m f now))
       \<and> (\<lambda>r. (kpi_name r, date r)) ` set (fst (recompute_anomalies fp c t2 w m f now))
           \<subseteq> (\<lambda>r. (kpi_name r, date r)) ` set (fst (recompute_anomalies fp c t1 w m f now))
       \<and> length (fst (recompute_anomalies fp c t2 w m f now)) \<le> length (fst (recompute_anomalies fp c t1 w m f now))"
proof -
  let ?gs = "groupby_kpi (read_frame c f)"
  let ?l = "load_scenario_lookup c"
  have s: "set (concat (map (scan_group fp ?l now t2 w m) ?gs))
           \<subseteq> set (concat (map (scan_group fp ?l now t1 w m) ?gs))"
    by (rule set_concat_map_mono) (rule scan_group_threshold(1) [OF assms])
  have n: "length (concat (map (scan_group fp ?l now t2 w m) ?gs))
           \<le> length (concat (map (scan_group fp ?l now t1 w m) ?gs))"
    by (rule length_concat_map_mono) (rule scan_group_threshold(2) [OF assms])
  have r: "set (fst (recompute_anomalies fp c t2 w m f now)) \<subseteq> set (fst (recompute_anomalies fp c t1 w m f now))"
    using s by (simp add: recompute_anomalies_def Let_def)
  have k: "length (fst (recompute_anomalies fp c t2 w m f now)) \<le> length (fst (recompute_anomalies fp c t1 w m f now))"
    using n by (simp add: recompute_anomalies_def Let_def)
  from r k show ?thesis by (simp add: image_mono)
qed

theorem threshold_monotone_witness:
  "(1::real) \<le> 3
   \<and> set (fst (recompute_anomalies exact_ops demo_conn 3 2 2 None ''t''))
       \<subseteq> set (fst (recompute_anomalies exact_ops demo_conn 1 2 2 None ''t''))
   \<and> length (fst (recompute_anomalies exact_ops demo_conn 3 2 2 None ''t'')) = 0
   \<and> length (fst (recompute_anomalies exact_ops demo_conn 1 2 2 None ''t'')) = 1"
proof -
  have h: "(1::real) \<le> 3" by simp
  show ?thesis
    using h threshold_monotone [OF h, of exact_ops demo_conn 2 2 None "''t''"]
    by (simp add: demo_run demo_run_high)
qed

subsection \<open>The stored score of a flagged day\<close>

lemma near_run:
  "recompute_anomalies exact_ops near_conn 3 8 8 None now =
     ([near_record now], near_conn\<lparr>anomalies := [near_record now]\<rparr>)"
  by (simp add: recompute_anomalies_def read_frame_def near_conn_def kpi_selected_def
        groupby_kpi_def scan_group_def check_index_def history_def window_score_def
        median_def upt_rec make_record_def round_half_even_def exact_ops_def lookup_get_def
        load_scenario_lookup_def near_record_def Let_def)

text \<open>
  Claim C6 at a concrete run. With threshold 3, a window of eight days and a minimum
  history of eight, day 9 is flagged on a computed score of 3.00001, and the score stored
  in its record is 3: the record's score is not strictly greater than the threshold.
\<close>

theorem stored_score_equals_threshold:
  "fst (recompute_anomalies exact_ops near_conn 3 8 8 None ''t'') = [near_record ''t'']
   \<and> score (near_record ''t'') = 3
   \<and> \<not> 3 < score (near_record ''t'')"
  by (simp add: near_run) (simp add: near_record_def)

section \<open>Properties of the driver attribution\<close>

subsection \<open>Totality of the row construction\<close>


lemma bind_result_simps:
  "bind_result (Inr x) f = f x" "bind_result (Inl e) f = Inl e"
  by (simp_all add: bind_result_def)

lemma safe_rate_value: "safe_rate fp a b = Inr (if b = 0 then 0 else f_div fp a b)"
  by (simp add: safe_rate_def py_truediv_def)

lemma map_result_total:
  assumes "\<And>x. x \<in> set xs \<Longrightarrow> \<exists>y. f x = Inr y"
  shows "\<exists>ys. map_result f xs = Inr ys \<and> length ys = length xs \<and>
              (\<forall>i < length xs. f (xs ! i) = Inr (ys ! i))"
  using assms
proof (induction xs)
  case Nil
  then show ?case by simp
next
  case (Cons x xs)
  from Cons.prems obtain y where y: "f x = Inr y" by auto
  from Cons obtain ys where ys: "map_result f xs = Inr ys" "length ys = length xs"
    "\<forall>i < length xs. f (xs ! i) = Inr (ys ! i)" by auto
  have "map_result f (x # xs) = Inr (y # ys)" using y ys(1) by (simp add: bind_result_def)
  moreover have "\<forall>i < length (x # xs). f ((x # xs) ! i) = Inr ((y # ys) ! i)"
    using y ys(3) by (auto simp: nth_Cons split: nat.splits)
  ultimately show ?case using ys(2) by auto
qed

text \<open>The row of a merged row, in closed form: no branch of the body raises.\<close>

lemma driver_row_of_value:
  "driver_row_of fp d t m =
     Inr \<lparr> dimension = d,
           segment = m_segment m,
           delta_abs =
             f_round fp
               (f_sub fp (if denominator_anomaly m = 0 then 0
                          else f_div fp (numerator_anomaly m) (denominator_anomaly m))
                         (if denominator_baseline m = 0 then 0
                          else f_div fp (numerator_baseline m) (denominator_baseline m))) 6,
           delta_pct =
             (if 0 < (if denominator_baseline m = 0 then 0
                      else f_div fp (numerator_baseline m) (denominator_baseline m))
              then Some (f_round fp
                     (f_mul fp
                        (f_div fp
                           (f_sub fp (if denominator_anomaly m = 0 then 0
                                      else f_div fp (numerator_anomaly m) (denominator_anomaly m))
                                     (if denominator_baseline m = 0 then 0
                                      else f_div fp (numerator_baseline m)
                                             (denominator_baseline m)))
                           (if denominator_baseline m = 0 then 0
                            else f_div fp (numerator_baseline m) (denominator_baseline m)))
                        100) 4)
              else None),
           contribution_share =
             f_round fp
               (if t \<noteq> 0
                then f_div fp (f_sub fp (numerator_anomaly m) (numerator_baseline m)) t
                else 0) 6,
           supporting_stats =
             [(''anomaly_numerator'', f_round fp (numerator_anomaly m) 4),
              (''anomaly_denominator'', f_round fp (denominator_anomaly m) 4),
              (''baseline_numerator'', f_round fp (numerator_baseline m) 4),
              (''baseline_denominator'', f_round fp (denominator_baseline m) 4),
              (''anomaly_rate'',
                 f_round fp (if denominator_anomaly m = 0 then 0
                             else f_div fp (numerator_anomaly m) (denominator_anomaly m)) 6),
              (''baseline_rate'',
                 f_round fp (if denominator_baseline m = 0 then 0
                             else f_div fp (numerator_baseline m) (denominator_baseline m)) 6)],
           driver_score =
             Some (f_mul fp \<bar>f_sub fp (numerator_anomaly m) (numerator_baseline m)\<bar>
                     (max 0.01
                        \<bar>f_sub fp (if denominator_anomaly m = 0 then 0
                                    else f_div fp (numerator_anomaly m) (denominator_anomaly m))
                                   (if denominator_baseline m = 0 then 0
                                    else f_div fp (numerator_baseline m)
                                           (denominator_baseline m))\<bar>)) \<rparr>"
  unfolding driver_row_of_def Let_def safe_rate_value bind_result_simps
  by (simp add: py_truediv_def bind_result_simps)

lemma driver_row_of_total: "\<exists>r. driver_row_of fp d t m = Inr r"
  unfolding driver_row_of_value by blast

lemma build_driver_rows_empty: "build_driver_rows fp d [] [] n = Inr ([], [])"
  by (simp add: build_driver_rows_def)

lemma build_driver_rows_nonempty:
  assumes "\<not> (adf = [] \<and> bdf = [])"
  shows "\<exists>rows. build_driver_rows fp d adf bdf n =
           Inr (rows, map drop_driver_score
                        (head n (sort_key (\<lambda>r. (- score_of r, - contribution_share r)) rows))) \<and>
         length rows = length (merged_frame fp adf bdf) \<and>
         (\<forall>i < length (merged_frame fp adf bdf).
            driver_row_of fp d (total_num_delta fp (merged_frame fp adf bdf))
              (merged_frame fp adf bdf ! i) = Inr (rows ! i))"
proof -
  let ?m = "merged_frame fp adf bdf"
  have "\<exists>y. driver_row_of fp d (total_num_delta fp ?m) x = Inr y" for x
    by (rule driver_row_of_total)
  from map_result_total [of ?m "driver_row_of fp d (total_num_delta fp ?m)", OF this]
  obtain rows where rows: "map_result (driver_row_of fp d (total_num_delta fp ?m)) ?m = Inr rows"
    "length rows = length ?m"
    "\<forall>i < length ?m. driver_row_of fp d (total_num_delta fp ?m) (?m ! i) = Inr (rows ! i)"
    by blast
  have "build_driver_rows fp d adf bdf n =
        bind_result (map_result (driver_row_of fp d (total_num_delta fp ?m)) ?m) (\<lambda>rows.
          Inr (rows, map drop_driver_score
                       (head n (sort_key (\<lambda>r. (- score_of r, - contribution_share r)) rows))))"
    unfolding build_driver_rows_def Let_def by (rule if_not_P [OF assms])
  also have "\<dots> = Inr (rows, map drop_driver_score
                       (head n (sort_key (\<lambda>r. (- score_of r, - contribution_share r)) rows)))"
    unfolding rows(1) by (simp add: bind_result_def)
  finally show ?thesis using rows(2,3) by (intro exI [of _ rows] conjI)
qed

lemma build_driver_rows_total: "\<exists>rows tr. build_driver_rows fp d adf bdf n = Inr (rows, tr)"
proof (cases "adf = [] \<and> bdf = []")
  case True
  then show ?thesis by (simp add: build_driver_rows_empty)
next
  case False
  from build_driver_rows_nonempty [OF False] show ?thesis by blast
qed

lemma dimension_loop_Cons:
  assumes "build_driver_rows fp (cfg_dimension cfg) (run_anomaly_sql db cfg t)
             (run_baseline_sql db cfg bs be) 5 = Inr (rows, tr)"
      and "dimension_loop fp db t bs be cfgs = Inr (all_rows, ev)"
  shows "dimension_loop fp db t bs be (cfg # cfgs) =
         Inr (rows @ all_rows,
              \<lparr> ev_dimension = cfg_dimension cfg, anomaly_params = [t],
                baseline_params = [bs, be], top_rows = tr \<rparr> # ev)"
  unfolding dimension_loop.simps assms bind_result_def by simp

lemma dimension_loop_total:
  "\<exists>all_rows ev. dimension_loop fp db t bs be cfgs = Inr (all_rows, ev) \<and>
      map ev_dimension ev = map cfg_dimension cfgs"
proof (induction cfgs)
  case Nil
  show ?case by simp
next
  case (Cons cfg cfgs)
  then obtain all_rows ev where ih: "dimension_loop fp db t bs be cfgs = Inr (all_rows, ev)"
    and dims: "map ev_dimension ev = map cfg_dimension cfgs" by blast
  obtain rows tr where b: "build_driver_rows fp (cfg_dimension cfg) (run_anomaly_sql db cfg t)
      (run_baseline_sql db cfg bs be) 5 = Inr (rows, tr)"
    using build_driver_rows_total by blast
  show ?case unfolding dimension_loop_Cons [OF b ih] using dims by simp
qed


lemma configs_dimensions:
  "kpi \<in> rate_kpis \<Longrightarrow> map cfg_dimension (dimension_configs_for_kpi kpi) =
     [''site'', ''customer_tier'', ''category'', ''incident_type'', ''carrier'', ''product_family'']"
  unfolding rate_kpis_def
  by (elim insertE emptyE) (simp_all add: dimension_configs_for_kpi_def mk_config_def Let_def)


subsection \<open>The rate path\<close>



lemma analyze_rate_kpi_dates:
  assumes "1 \<le> t" "t \<le> 3652059" "\<bar>bd\<bar> \<le> 999999999" "1 \<le> t - bd" "t - bd \<le> 3652059" "2 \<le> t"
      and "dimension_loop fp db t (t - bd) (t - 1) (dimension_configs_for_kpi kpi) = Inr (all_rows, ev)"
  shows "analyze_rate_kpi fp db kpi t bd n =
           Inr \<lparr> drivers = (if all_rows = [] then [] else rank_drivers fp all_rows n),
                 evidence = ev \<rparr>"
proof -
  have a: "fromisoformat t = Inr t" using assms(1,2) by (simp add: fromisoformat_def)
  have b: "date_minus_days t bd = Inr (t - bd)" using assms(3,4,5) by (simp add: date_minus_days_def)
  have c: "date_minus_days t 1 = Inr (t - 1)" using assms(2,6) by (simp add: date_minus_days_def)
  show ?thesis
    unfolding analyze_rate_kpi_def a b c bind_result_simps assms(7) by simp
qed

lemma analyze_rate_kpi_overflow:
  assumes "1 \<le> t" "t \<le> 3652059"
      and "\<not> (\<bar>bd\<bar> \<le> 999999999 \<and> 1 \<le> t - bd \<and> t - bd \<le> 3652059 \<and> 2 \<le> t)"
  shows "analyze_rate_kpi fp db kpi t bd n = Inl OverflowError"
proof -
  have a: "fromisoformat t = Inr t" using assms(1,2) by (simp add: fromisoformat_def)
  show ?thesis
  proof (cases "\<bar>bd\<bar> \<le> 999999999 \<and> 1 \<le> t - bd \<and> t - bd \<le> 3652059")
    case False
    then have "date_minus_days t bd = Inl OverflowError" by (auto simp: date_minus_days_def)
    then show ?thesis
      unfolding analyze_rate_kpi_def a bind_result_simps by (simp add: bind_result_simps)
  next
    case True
    then have b: "date_minus_days t bd = Inr (t - bd)" by (simp add: date_minus_days_def)
    from True assms(3) have "t - 1 < 1" by simp
    then have c: "date_minus_days t 1 = Inl OverflowError" by (simp add: date_minus_days_def)
    show ?thesis
      unfolding analyze_rate_kpi_def a bind_result_simps by (simp add: b c bind_result_simps)
  qed
qed



lemma compute_rate:
  "kpi \<in> rate_kpis \<Longrightarrow>
   compute_top_drivers fp db kpi t bd n = analyze_rate_kpi fp db kpi t bd n"
  by (simp add: compute_top_drivers_def rate_kpis_def)




lemma sla_is_rate: "''sla_breach_rate_pct'' \<in> rate_kpis"
  by (simp add: rate_kpis_def)

lemma rank_key_order:
  assumes "(- rank_score fp a, - contribution_share a, - delta_abs a)
           \<le> (- rank_score fp b, - contribution_share b, - delta_abs b)"
  shows "ranks_before fp a b"
  using assms unfolding less_eq_prod_def ranks_before_def rank_score_def
  by auto

lemma sort_key_ranks:
  "sorted_wrt (ranks_before fp)
     (sort_key (\<lambda>r. (- rank_score fp r, - contribution_share r, - delta_abs r)) xs)"
proof -
  let ?k = "\<lambda>r. (- rank_score fp r, - contribution_share r, - delta_abs r)"
  have "sorted (map ?k (sort_key ?k xs))" by (rule sorted_sort_key)
  then have "sorted_wrt (\<lambda>a b. ?k a \<le> ?k b) (sort_key ?k xs)"
    by (simp add: sorted_map)
  then show ?thesis
    by (rule sorted_wrt_mono_rel [rotated]) (rule rank_key_order)
qed

lemma rank_drivers_spec:
  assumes "0 \<le> top_n"
  shows "\<exists>ranked.
           rank_drivers fp all_rows top_n = take (nat top_n) ranked \<and>
           mset ranked =
             mset (if filter (\<lambda>r. 0 < delta_abs r \<and> 0 < contribution_share r) all_rows = []
                   then all_rows
                   else filter (\<lambda>r. 0 < delta_abs r \<and> 0 < contribution_share r) all_rows) \<and>
           sorted_wrt (ranks_before fp) ranked"
proof -
  let ?k = "\<lambda>r. (- rank_score fp r, - contribution_share r, - delta_abs r)"
  let ?pool = "if positive_rows all_rows \<noteq> [] then positive_rows all_rows else all_rows"
  have "rank_drivers fp all_rows top_n = take (nat top_n) (sort_key ?k ?pool)"
    using assms by (simp add: rank_drivers_def head_def Let_def)
  moreover have "mset (sort_key ?k ?pool) =
     mset (if filter (\<lambda>r. 0 < delta_abs r \<and> 0 < contribution_share r) all_rows = []
           then all_rows
           else filter (\<lambda>r. 0 < delta_abs r \<and> 0 < contribution_share r) all_rows)"
    by (simp add: positive_rows_def)
  moreover have "sorted_wrt (ranks_before fp) (sort_key ?k ?pool)" by (rule sort_key_ranks)
  ultimately show ?thesis by blast
qed

text \<open>
  Claim C5. For a rate KPI, a baseline window whose ends are dates and a non-negative
  \<open>top_n\<close>: when the pooled rows of the dimensions are not empty, the drivers are the
  first \<open>top_n\<close> rows of a list \<open>ranked\<close> that is a rearrangement of the chosen pool, the
  rows with \<open>delta_abs > 0\<close> and \<open>contribution_share > 0\<close> or the whole pool when there is
  no such row, in descending order of the product of \<open>|contribution_share|\<close> and
  \<open>|delta_abs|\<close> as the program computes it, then of \<open>contribution_share\<close>, then of
  \<open>delta_abs\<close>. This holds for every way the arithmetic rounds.
\<close>

theorem drivers_ranking:
  assumes "kpi \<in> rate_kpis"
      and "1 \<le> t" "t \<le> 3652059" "\<bar>bd\<bar> \<le> 999999999" "1 \<le> t - bd" "t - bd \<le> 3652059" "2 \<le> t"
      and "dimension_loop fp db t (t - bd) (t - 1) (dimension_configs_for_kpi kpi) = Inr (all_rows, ev)"
      and "all_rows \<noteq> []"
      and "0 \<le> top_n"
  shows "\<exists>ranked.
           compute_top_drivers fp db kpi t bd top_n =
             Inr \<lparr> drivers = take (nat top_n) ranked, evidence = ev \<rparr> \<and>
           mset ranked =
             mset (if filter (\<lambda>r. 0 < delta_abs r \<and> 0 < contribution_share r) all_rows = []
                   then all_rows
                   else filter (\<lambda>r. 0 < delta_abs r \<and> 0 < contribution_share r) all_rows) \<and>
           sorted_wrt (ranks_before fp) ranked"
proof -
  have "compute_top_drivers fp db kpi t bd top_n = analyze_rate_kpi fp db kpi t bd top_n"
    using assms(1) by (rule compute_rate)
  also have "\<dots> = Inr \<lparr> drivers = rank_drivers fp all_rows top_n, evidence = ev \<rparr>"
    using analyze_rate_kpi_dates [OF assms(2-8), of top_n] assms(9) by simp
  finally have c: "compute_top_drivers fp db kpi t bd top_n =
                   Inr \<lparr> drivers = rank_drivers fp all_rows top_n, evidence = ev \<rparr>" .
  from rank_drivers_spec [OF assms(10), of fp all_rows] obtain ranked where
    r: "rank_drivers fp all_rows top_n = take (nat top_n) ranked"
       "mset ranked =
          mset (if filter (\<lambda>r. 0 < delta_abs r \<and> 0 < contribution_share r) all_rows = []
                then all_rows
                else filter (\<lambda>r. 0 < delta_abs r \<and> 0 < contribution_share r) all_rows)"
       "sorted_wrt (ranks_before fp) ranked" by blast
  show ?thesis
    by (intro exI [of _ ranked] conjI) (simp add: c r(1), fact r(2), fact r(3))
qed

text \<open>
  Claim C10, as the code has it. For a rate KPI and a target date that is a date: when
  both ends of the baseline window are dates (the timedelta has at most 999999999 days,
  and \<open>target - baseline_days\<close> and \<open>target - 1\<close> lie between 0001-01-01 and 9999-12-31),
  the call returns, whatever the queries return and whatever \<open>top_n\<close> is, with exactly six
  evidence entries in the declared order; otherwise it raises \<open>OverflowError\<close>, whatever
  the store holds.
\<close>

theorem rate_kpi_six_evidence_entries:
  assumes "kpi \<in> rate_kpis" and "1 \<le> t" and "t \<le> 3652059"
  shows "if \<bar>bd\<bar> \<le> 999999999 \<and> 1 \<le> t - bd \<and> t - bd \<le> 3652059 \<and> 2 \<le> t
         then \<exists>res. compute_top_drivers fp db kpi t bd top_n = Inr res \<and>
                map ev_dimension (evidence res) =
                  [''site'', ''customer_tier'', ''category'', ''incident_type'', ''carrier'',
                   ''product_family''] \<and>
                length (evidence res) = 6
         else compute_top_drivers fp db kpi t bd top_n = Inl OverflowError"
proof (cases "\<bar>bd\<bar> \<le> 999999999 \<and> 1 \<le> t - bd \<and> t - bd \<le> 3652059 \<and> 2 \<le> t")
  case True
  obtain all_rows ev where
    dl: "dimension_loop fp db t (t - bd) (t - 1) (dimension_configs_for_kpi kpi) = Inr (all_rows, ev)"
    and dims: "map ev_dimension ev = map cfg_dimension (dimension_configs_for_kpi kpi)"
    using dimension_loop_total by blast
  have six: "map ev_dimension ev =
     [''site'', ''customer_tier'', ''category'', ''incident_type'', ''carrier'', ''product_family'']"
    using dims configs_dimensions [OF assms(1)] by simp
  then have "length (map ev_dimension ev) = 6" by simp
  then have len: "length ev = 6" by simp
  have "compute_top_drivers fp db kpi t bd top_n = analyze_rate_kpi fp db kpi t bd top_n"
    using assms(1) by (rule compute_rate)
  also have "\<dots> = Inr \<lparr> drivers = (if all_rows = [] then [] else rank_drivers fp all_rows top_n),
                         evidence = ev \<rparr>"
    using analyze_rate_kpi_dates [OF assms(2,3) _ _ _ _ dl] True by blast
  finally show ?thesis using True six len by simp
next
  case False
  have "compute_top_drivers fp db kpi t bd top_n = analyze_rate_kpi fp db kpi t bd top_n"
    using assms(1) by (rule compute_rate)
  also have "\<dots> = Inl OverflowError" by (rule analyze_rate_kpi_overflow [OF assms(2,3) False])
  finally show ?thesis using False by simp
qed

subsection \<open>The data-quality path and the dispatch\<close>

lemma dq_row_of_total: "\<exists>r. dq_row_of fp m = Inr r"
  by (simp add: dq_row_of_def safe_rate_value bind_result_def py_truediv_def Let_def)




subsection \<open>Guards of the row construction\<close>



subsection \<open>Evaluation at the concrete stores\<close>

lemmas frame_defs =
  build_driver_rows_def merged_frame_def merge_outer_def baseline_grouped_def
  fill_segment_def Let_def total_num_delta_def driver_row_of_def safe_rate_def
  py_truediv_def bind_result_def round_half_even_def exact_ops_def head_def score_of_def
  drop_driver_score_def

lemma demo_build:
  "build_driver_rows exact_ops ''carrier'' demo_anomaly_df demo_baseline_df 5 =
     Inr ([north_row, south_row, unknown_row],
          map drop_driver_score [north_row, south_row, unknown_row])"
  by (simp add: frame_defs demo_anomaly_df_def demo_baseline_df_def
        north_row_def south_row_def unknown_row_def)




lemma demo_loop:
  "dimension_loop exact_ops demo_mart 739657 739643 739656
     (dimension_configs_for_kpi ''sla_breach_rate_pct'') =
     Inr ([north_row, south_row, unknown_row],
          demo_evidence (map drop_driver_score [north_row, south_row, unknown_row]))"
  by (simp add: dimension_configs_for_kpi_def mk_config_def Let_def demo_mart_def demo_build
        build_driver_rows_empty bind_result_def demo_evidence_def demo_entry_def)

lemma demo_positive:
  "filter (\<lambda>r. 0 < delta_abs r \<and> 0 < contribution_share r) [north_row, south_row, unknown_row]
     = [north_row, south_row]"
  by (simp add: north_row_def south_row_def unknown_row_def)


lemma overflow_sla:
  "compute_top_drivers exact_ops empty_mart ''sla_breach_rate_pct'' 739657 1000000 n
     = Inl OverflowError"
  by (simp add: compute_rate [OF sla_is_rate] analyze_rate_kpi_def fromisoformat_def
        date_minus_days_def bind_result_def)


subsection \<open>Concrete instances\<close>



theorem drivers_ranking_witness:
  "''sla_breach_rate_pct'' \<in> rate_kpis
   \<and> dimension_loop exact_ops demo_mart 739657 (739657 - 14) (739657 - 1)
        (dimension_configs_for_kpi ''sla_breach_rate_pct'') =
       Inr ([north_row, south_row, unknown_row],
            demo_evidence (map drop_driver_score [north_row, south_row, unknown_row]))
   \<and> (\<exists>ranked.
         compute_top_drivers exact_ops demo_mart ''sla_breach_rate_pct'' 739657 14 3 =
           Inr \<lparr> drivers = take 3 ranked,
                 evidence = demo_evidence (map drop_driver_score [north_row, south_row, unknown_row]) \<rparr>
       \<and> mset ranked = mset [north_row, south_row]
       \<and> sorted_wrt (ranks_before exact_ops) ranked)"
proof -
  have l: "dimension_loop exact_ops demo_mart 739657 (739657 - 14) (739657 - 1)
             (dimension_configs_for_kpi ''sla_breach_rate_pct'') =
           Inr ([north_row, south_row, unknown_row],
                demo_evidence (map drop_driver_score [north_row, south_row, unknown_row]))"
    using demo_loop by simp
  have "\<exists>ranked.
         compute_top_drivers exact_ops demo_mart ''sla_breach_rate_pct'' 739657 14 3 =
           Inr \<lparr> drivers = take (nat 3) ranked,
                 evidence = demo_evidence (map drop_driver_score [north_row, south_row, unknown_row]) \<rparr>
       \<and> mset ranked =
           mset (if filter (\<lambda>r. 0 < delta_abs r \<and> 0 < contribution_share r)
                      [north_row, south_row, unknown_row] = []
                 then [north_row, south_row, unknown_row]
                 else filter (\<lambda>r. 0 < delta_abs r \<and> 0 < contribution_share r)
                        [north_row, south_row, unknown_row])
       \<and> sorted_wrt (ranks_before exact_ops) ranked"
    by (rule drivers_ranking [OF sla_is_rate _ _ _ _ _ _ l]) simp_all
  then have "\<exists>ranked.
         compute_top_drivers exact_ops demo_mart ''sla_breach_rate_pct'' 739657 14 3 =
           Inr \<lparr> drivers = take 3 ranked,
                 evidence = demo_evidence (map drop_driver_score [north_row, south_row, unknown_row]) \<rparr>
       \<and> mset ranked = mset [north_row, south_row]
       \<and> sorted_wrt (ranks_before exact_ops) ranked"
    unfolding demo_positive by simp
  with sla_is_rate l show ?thesis by blast
qed

theorem rate_kpi_six_evidence_entries_witness:
  "''sla_breach_rate_pct'' \<in> rate_kpis
   \<and> (\<exists>res. compute_top_drivers exact_ops demo_mart ''sla_breach_rate_pct'' 739657 14 3 = Inr res \<and>
         map ev_dimension (evidence res) =
           [''site'', ''customer_tier'', ''category'', ''incident_type'', ''carrier'',
            ''product_family''] \<and>
         length (evidence res) = 6)
   \<and> compute_top_drivers exact_ops demo_mart ''sla_breach_rate_pct'' 1 14 3 = Inl OverflowError"
proof -
  have a: "\<exists>res. compute_top_drivers exact_ops demo_mart ''sla_breach_rate_pct'' 739657 14 3 = Inr res \<and>
         map ev_dimension (evidence res) =
           [''site'', ''customer_tier'', ''category'', ''incident_type'', ''carrier'',
            ''product_family''] \<and>
         length (evidence res) = 6"
    using rate_kpi_six_evidence_entries
            [OF sla_is_rate, of 739657 14 exact_ops demo_mart 3] by simp
  have b: "compute_top_drivers exact_ops demo_mart ''sla_breach_rate_pct'' 1 14 3 = Inl OverflowError"
    using rate_kpi_six_evidence_entries
            [OF sla_is_rate, of 1 14 exact_ops demo_mart 3] by simp
  show ?thesis by (intro conjI) (rule sla_is_rate, rule a, rule b)
qed

text \<open>
  The claim as written fails: with a baseline of a million days the start of the window
  is before 0001-01-01 and the call raises instead of returning evidence.
\<close>

theorem baseline_window_out_of_range:
  "compute_top_drivers exact_ops empty_mart ''sla_breach_rate_pct'' 739657 1000000 3
     = Inl OverflowError"
  by (rule overflow_sla)



end
